theory Spec2Isabelle
  imports
    Main
    "HOL-Library.Char_ord"
    "HOL-Library.List_Lexorder"
    "HOL-Library.Multiset"
    "HOL-Library.Sublist"
begin

section \<open>Strings as Python has them\<close>

text \<open>
  A Python \<open>str\<close> is modelled as a \<^typ>\<open>string\<close>; every \<^typ>\<open>char\<close> stands for the
  code point of the same number, so the model covers text of code points below 256.
  \<open>str.isspace\<close> is true in that range for 9 to 13, 28 to 32, 133 and 160.
\<close>

definition isspace :: "char \<Rightarrow> bool" where
  "isspace c = (of_char c \<in> {9, 10, 11, 12, 13, 28, 29, 30, 31, 32, 133, 160 :: nat})"

text \<open>\<open>s.strip()\<close>: whitespace removed at both ends.\<close>

definition strip :: "string \<Rightarrow> string" where
  "strip s = rev (dropWhile isspace (rev (dropWhile isspace s)))"

text \<open>\<open>x or d\<close> for an \<open>Optional[str]\<close>: both \<open>None\<close> and the empty string are falsy.\<close>

definition str_or :: "string option \<Rightarrow> string \<Rightarrow> string" where
  "str_or x d = (case x of None \<Rightarrow> d | Some s \<Rightarrow> if s = [] then d else s)"

text \<open>The decimal digit of a number below ten.\<close>

definition digit :: "nat \<Rightarrow> char" where
  "digit d = ''0123456789'' ! d"

text \<open>\<open>str(n)\<close> for a non-negative integer.\<close>

fun str_nat :: "nat \<Rightarrow> string" where
  "str_nat n = (if n < 10 then [digit n] else str_nat (n div 10) @ [digit (n mod 10)])"

declare str_nat.simps [simp del]

text \<open>\<open>"\n".join(lines)\<close>\<close>

fun join_lines :: "string list \<Rightarrow> string" where
  "join_lines [] = []"
| "join_lines [l] = l"
| "join_lines (l # m # ls) = l @ [CHR 0x0A] @ join_lines (m # ls)"

section \<open>Floating point: \<open>st_size / 1024\<close> shown with \<open>:.1f\<close>\<close>

text \<open>
  Rounding of the fraction \<open>a / b\<close> to the nearest integer, a tie going to the even
  neighbour: the rule of IEEE 754 arithmetic and of Python's float formatting.
\<close>

definition round_half_even :: "nat \<Rightarrow> nat \<Rightarrow> nat" where
  "round_half_even a b =
     (let q = a div b; r = a mod b in
      if 2 * r < b then q
      else if b < 2 * r then q + 1
      else if even q then q else q + 1)"

fun bit_length :: "nat \<Rightarrow> nat" where
  "bit_length n = (if n = 0 then 0 else Suc (bit_length (n div 2)))"

declare bit_length.simps [simp del]

text \<open>
  \<open>st_size / 1024\<close> is Python's true division of two ints: the double nearest to the
  exact quotient. Dividing by a power of two only changes the exponent, so the result is
  \<open>float_numerator n / 1024\<close>, where \<open>float_numerator n\<close> is \<open>n\<close> rounded to 53
  significant bits; below \<open>2 ^ 53\<close> nothing is lost.
\<close>

definition float_numerator :: "nat \<Rightarrow> nat" where
  "float_numerator n =
     (if n < 2 ^ 53 then n
      else (let e = bit_length n - 53 in round_half_even n (2 ^ e) * 2 ^ e))"

text \<open>
  \<open>f"{size_kb:.1f}"\<close> prints the decimal with one fractional digit nearest to the exact
  value of the double, ties to even. \<open>size_kb_tenths\<close> is that decimal in tenths.
\<close>

definition size_kb_tenths :: "nat \<Rightarrow> nat" where
  "size_kb_tenths n = round_half_even (float_numerator n * 10) 1024"

definition format_kb :: "nat \<Rightarrow> string" where
  "format_kb n = (let t = size_kb_tenths n in str_nat (t div 10) @ ''.'' @ [digit (t mod 10)])"

section \<open>The world the program runs in\<close>

text \<open>
  A filesystem object is a regular file with its size in bytes, a directory with its
  entries in the order the operating system lists them, or a directory that cannot be
  listed. Symbolic links and special files are outside the model.
\<close>

datatype node = File nat | Dir "(string \<times> node) list" | Unreadable

fun is_dir :: "node \<Rightarrow> bool" where
  "is_dir (File _) = False"
| "is_dir (Dir _) = True"
| "is_dir Unreadable = True"

text \<open>\<open>path.stat().st_size\<close>; the program reads it for regular files only.\<close>

fun st_size :: "node \<Rightarrow> nat" where
  "st_size (File n) = n"
| "st_size (Dir _) = 0"
| "st_size Unreadable = 0"

datatype error = NotADirectoryError | PermissionError | FileNotFoundError

text \<open>
  The world: the program's name (argparse's \<open>prog\<close>), \<open>Path(p).expanduser().resolve()\<close>,
  the object at an absolute path (\<open>None\<close> when nothing exists there), and the
  version-control client: exit status and standard output of \<open>git args\<close> run in a
  directory, \<open>None\<close> when the client cannot be started.
\<close>

record world =
  prog :: string
  resolve :: "string \<Rightarrow> string"
  fs :: "string \<Rightarrow> node option"
  git :: "string \<Rightarrow> string list \<Rightarrow> (int \<times> string) option"

text \<open>The calls the collectors make, in the order they are made.\<close>

datatype event =
    Subprocess string "string list"
  | IterDir string
  | IsDir string
  | Stat string
  | OsWalk string

type_synonym 'a io = "event list \<times> (error + 'a)"

definition io_return :: "'a \<Rightarrow> 'a io" where
  "io_return x = ([], Inr x)"

definition io_bind :: "'a io \<Rightarrow> ('a \<Rightarrow> 'b io) \<Rightarrow> 'b io" where
  "io_bind m f =
     (case m of
        (es, Inl e) \<Rightarrow> (es, Inl e)
      | (es, Inr x) \<Rightarrow> (case f x of (es', r) \<Rightarrow> (es @ es', r)))"

text \<open>\<open>root / name\<close>\<close>

definition child_path :: "string \<Rightarrow> string \<Rightarrow> string" where
  "child_path root name = (if root = ''/'' then root @ name else root @ ''/'' @ name)"

section \<open>The program\<close>

record GitInfo =
  branch :: string
  latest_commit :: string
  dirty :: bool
  remote :: "string option"

text \<open>
  Lines 23 to 25 of \<open>run_git\<close>: what it returns for a completed process, given as
  exit status and standard output.
\<close>

definition returned :: "int \<times> string \<Rightarrow> string option" where
  "returned result = (if fst result \<noteq> 0 then None else Some (strip (snd result)))"

text \<open>
  \<open>run_git\<close>: \<open>subprocess.run\<close> changes to \<open>cwd\<close> before it executes the
  client, and raises when that fails or when there is no client to execute.
\<close>

definition run_git :: "world \<Rightarrow> string list \<Rightarrow> string \<Rightarrow> string option io" where
  "run_git w args cwd =
     ([Subprocess cwd (''git'' # args)],
      (case fs w cwd of
         None \<Rightarrow> Inl FileNotFoundError
       | Some (File _) \<Rightarrow> Inl NotADirectoryError
       | Some _ \<Rightarrow>
           (case git w cwd args of
              None \<Rightarrow> Inl FileNotFoundError
            | Some result \<Rightarrow> Inr (returned result))))"

definition branch_query :: "string list" where
  "branch_query = [''rev-parse'', ''--abbrev-ref'', ''HEAD'']"

definition log_query :: "string list" where
  "log_query = [''log'', ''-1'', ''--pretty=format:%h %s'']"

definition status_query :: "string list" where
  "status_query = [''status'', ''--porcelain'']"

definition remote_query :: "string list" where
  "remote_query = [''remote'', ''get-url'', ''origin'']"

definition collect_git_info :: "world \<Rightarrow> string \<Rightarrow> GitInfo option io" where
  "collect_git_info w root =
     io_bind (run_git w branch_query root) (\<lambda>b.
       case b of
         None \<Rightarrow> io_return None
       | Some br \<Rightarrow>
           io_bind (run_git w log_query root) (\<lambda>lc.
           io_bind (run_git w status_query root) (\<lambda>st.
           io_bind (run_git w remote_query root) (\<lambda>rm.
             io_return (Some \<lparr>branch = br,
                              latest_commit = str_or lc ''n/a'',
                              dirty = (strip (str_or st []) \<noteq> []),
                              remote = rm\<rparr>)))))"

text \<open>The body of the loop of \<open>collect_file_overview\<close>, over the sorted children.\<close>

fun overview_loop :: "string \<Rightarrow> (string \<times> node) list \<Rightarrow> string list \<Rightarrow> event list \<times> string list" where
  "overview_loop root [] entries = ([], entries)"
| "overview_loop root ((name, c) # ps) entries =
     (if name = ''.git'' then overview_loop root ps entries
      else if is_dir c then
        (case overview_loop root ps (entries @ [name @ ''/'']) of
           (evs, r) \<Rightarrow> (IsDir (child_path root name) # evs, r))
      else
        (case overview_loop root ps
                (entries @ [name @ '' ('' @ format_kb (st_size c) @ '' KB)'']) of
           (evs, r) \<Rightarrow> (IsDir (child_path root name) # Stat (child_path root name) # evs, r)))"

definition collect_file_overview :: "world \<Rightarrow> string \<Rightarrow> string list io" where
  "collect_file_overview w root =
     (case fs w root of
        None \<Rightarrow> ([IterDir root], Inl FileNotFoundError)
      | Some (File _) \<Rightarrow> ([IterDir root], Inl NotADirectoryError)
      | Some Unreadable \<Rightarrow> ([IterDir root], Inl PermissionError)
      | Some (Dir es) \<Rightarrow>
          (case overview_loop root (sort_key fst es) [] of
             (evs, entries) \<Rightarrow> (IterDir root # evs, Inr entries)))"

record stats =
  files :: nat
  dirs :: nat

text \<open>
  \<open>os.walk\<close>, top down: a directory that cannot be listed yields nothing (the default
  \<open>onerror\<close>), and so does a top that is no directory. At each directory the loop body
  filters \<open>dirnames\<close> in place, adds the two lengths, and the walk goes on into the
  directories left in \<open>dirnames\<close>.
\<close>

fun walk :: "node \<Rightarrow> stats \<Rightarrow> stats" where
  "walk (File _) acc = acc"
| "walk Unreadable acc = acc"
| "walk (Dir es) acc =
     (let dirnames = [fst e. e \<leftarrow> es, is_dir (snd e)];
          filenames = [fst e. e \<leftarrow> es, \<not> is_dir (snd e)];
          dirnames' = [d. d \<leftarrow> dirnames, d \<noteq> ''.git''];
          acc' = \<lparr>files = files acc + length filenames, dirs = dirs acc + length dirnames'\<rparr>
      in fold (\<lambda>e a. if is_dir (snd e) \<and> fst e \<noteq> ''.git'' then walk (snd e) a else a) es acc')"

definition collect_stats :: "world \<Rightarrow> string \<Rightarrow> stats io" where
  "collect_stats w root =
     ([OsWalk root],
      Inr (case fs w root of
             None \<Rightarrow> \<lparr>files = 0, dirs = 0\<rparr>
           | Some t \<Rightarrow> walk t \<lparr>files = 0, dirs = 0\<rparr>))"

text \<open>Lines 79 to 98 of \<open>format_summary\<close>: the list \<open>lines\<close>.\<close>

definition summary_lines :: "string \<Rightarrow> GitInfo option \<Rightarrow> string list \<Rightarrow> stats \<Rightarrow> string list" where
  "summary_lines root git_info file_listing st =
     [''Path: '' @ root]
     @ (case git_info of
          Some g \<Rightarrow>
            [''Branch: '' @ branch g,
             ''Latest commit: '' @ latest_commit g,
             ''Remote: '' @ str_or (remote g) ''n/a'',
             ''Working tree: '' @ (if dirty g then ''dirty'' else ''clean'')]
        | None \<Rightarrow> [''Git: n/a (not a repository)''])
     @ ['''',
        ''Contents: '' @ str_nat (files st) @ '' files in '' @ str_nat (dirs st) @ '' directories'']
     @ map (\<lambda>entry. ''  - '' @ entry) file_listing"

text \<open>\<open>format_summary\<close> up to its last statement: the collectors, then \<open>lines\<close>.\<close>

definition format_summary_lines :: "world \<Rightarrow> string \<Rightarrow> string list io" where
  "format_summary_lines w root =
     io_bind (collect_git_info w root) (\<lambda>git_info.
     io_bind (collect_file_overview w root) (\<lambda>file_listing.
     io_bind (collect_stats w root) (\<lambda>st.
       io_return (summary_lines root git_info file_listing st))))"

definition format_summary :: "world \<Rightarrow> string \<Rightarrow> string io" where
  "format_summary w root =
     io_bind (format_summary_lines w root) (\<lambda>lines. io_return (join_lines lines))"






section \<open>What the specification speaks of\<close>

text \<open>
  The tree without its version-control internals: every directory entry named \<open>.git\<close>
  is removed with all it holds, in the tree and in each directory left in it.
\<close>

fun prune_git :: "node \<Rightarrow> node" where
  "prune_git (Dir es) =
     Dir (map (\<lambda>e. (fst e, prune_git (snd e)))
            (filter (\<lambda>e. \<not> (is_dir (snd e) \<and> fst e = ''.git'')) es))"
| "prune_git (File n) = File n"
| "prune_git Unreadable = Unreadable"

text \<open>A \<open>.git\<close> directory somewhere beneath a node.\<close>

fun has_git_dir :: "node \<Rightarrow> bool" where
  "has_git_dir (Dir es) =
     list_ex (\<lambda>e. is_dir (snd e) \<and> (fst e = ''.git'' \<or> has_git_dir (snd e))) es"
| "has_git_dir (File n) = False"
| "has_git_dir Unreadable = False"

text \<open>The files and the directories beneath a node, counted through the whole tree.\<close>

fun files_below :: "node \<Rightarrow> nat" where
  "files_below (Dir es) = (\<Sum>e\<leftarrow>es. if is_dir (snd e) then files_below (snd e) else 1)"
| "files_below (File n) = 0"
| "files_below Unreadable = 0"

fun dirs_below :: "node \<Rightarrow> nat" where
  "dirs_below (Dir es) = (\<Sum>e\<leftarrow>es. if is_dir (snd e) then 1 + dirs_below (snd e) else 0)"
| "dirs_below (File n) = 0"
| "dirs_below Unreadable = 0"



text \<open>A line of version-control metadata: branch, latest commit, remote or working tree.\<close>

definition metadata_line :: "string \<Rightarrow> bool" where
  "metadata_line l =
     (prefix ''Branch: '' l \<or> prefix ''Latest commit: '' l
      \<or> prefix ''Remote: '' l \<or> prefix ''Working tree: '' l)"

section \<open>Worlds to run the program in\<close>

definition example_tree :: node where
  "example_tree =
     Dir [(''b'', File 256),
          (''.git'', Dir [(''HEAD'', File 23), (''objects'', Dir [])]),
          (''README.md'', File 10),
          (''a'', Dir [(''x'', File 768), (''.git'', Dir [(''q'', File 1)]), (''sub'', Unreadable)])]"

text \<open>A repository at \<open>/repo\<close> with no remote; no repository anywhere else.\<close>

definition example_git :: "string \<Rightarrow> string list \<Rightarrow> (int \<times> string) option" where
  "example_git cwd args =
     (if cwd \<noteq> ''/repo'' then Some (128, [])
      else if args = branch_query then Some (0, ''main'' @ [CHR 0x0A])
      else if args = log_query then Some (0, ''1a2b3c4 first'')
      else if args = status_query then Some (0, '' M b'' @ [CHR 0x0A])
      else Some (2, []))"

definition example_fs :: "string \<Rightarrow> node option" where
  "example_fs p =
     (if p = ''/repo'' then Some example_tree
      else if p = ''/repo/README.md'' then Some (File 10)
      else if p = ''/tmp/one'' \<or> p = ''/tmp/two'' then Some (Dir [])
      else None)"

definition example_world :: world where
  "example_world =
     \<lparr>prog = ''lensy.py'', resolve = (\<lambda>p. if p = ''.'' then ''/repo'' else p),
      fs = example_fs, git = example_git\<rparr>"

text \<open>The same world with a status query that fails, and with one that reports nothing.\<close>

definition failing_status_world :: world where
  "failing_status_world =
     example_world\<lparr>git := (\<lambda>cwd args. if args = status_query then Some (128, ''fatal'')
                                          else example_git cwd args)\<rparr>"

definition clean_status_world :: world where
  "clean_status_world =
     example_world\<lparr>git := (\<lambda>cwd args. if args = status_query then Some (0, [CHR 0x0A])
                                          else example_git cwd args)\<rparr>"

text \<open>A fresh repository holding \<open>README.md\<close> of 10 bytes and nothing else.\<close>

definition fresh_world :: world where
  "fresh_world =
     example_world\<lparr>fs := (\<lambda>p. if p = ''/repo''
                               then Some (Dir [(''README.md'', File 10), (''.git'', Dir [(''HEAD'', File 23)])])
                               else None)\<rparr>"

section \<open>The stats collector\<close>

lemma is_dir_prune_git [simp]: "is_dir (prune_git t) = is_dir t"
  by (cases t) simp_all

lemma walk_fold:
  assumes "\<And>e a. e \<in> set xs \<Longrightarrow>
             walk (snd e) a = \<lparr>files = files a + files_below (prune_git (snd e)),
                                dirs = dirs a + dirs_below (prune_git (snd e))\<rparr>"
  shows "fold (\<lambda>e a. if is_dir (snd e) \<and> fst e \<noteq> ''.git'' then walk (snd e) a else a) xs a =
         \<lparr>files = files a + (\<Sum>e\<leftarrow>xs. if is_dir (snd e) \<and> fst e \<noteq> ''.git''
                                         then files_below (prune_git (snd e)) else 0),
          dirs = dirs a + (\<Sum>e\<leftarrow>xs. if is_dir (snd e) \<and> fst e \<noteq> ''.git''
                                       then dirs_below (prune_git (snd e)) else 0)\<rparr>"
  using assms by (induction xs arbitrary: a) simp_all

lemma files_sum:
  "length [fst e. e \<leftarrow> xs, \<not> is_dir (snd e)]
     + (\<Sum>e\<leftarrow>xs. if is_dir (snd e) \<and> fst e \<noteq> ''.git''
                  then files_below (prune_git (snd e)) else 0)
   = files_below (prune_git (Dir xs))"
  by (induction xs) simp_all

lemma dirs_sum:
  "length [d. d \<leftarrow> [fst e. e \<leftarrow> xs, is_dir (snd e)], d \<noteq> ''.git'']
     + (\<Sum>e\<leftarrow>xs. if is_dir (snd e) \<and> fst e \<noteq> ''.git''
                  then dirs_below (prune_git (snd e)) else 0)
   = dirs_below (prune_git (Dir xs))"
  by (induction xs) simp_all

lemma walk_acc:
  "walk t acc = \<lparr>files = files acc + files_below (prune_git t),
                  dirs = dirs acc + dirs_below (prune_git t)\<rparr>"
proof (induction t arbitrary: acc)
  case (File n)
  show ?case by simp
next
  case Unreadable
  show ?case by simp
next
  case (Dir es)
  have IH: "walk (snd e) a = \<lparr>files = files a + files_below (prune_git (snd e)),
                               dirs = dirs a + dirs_below (prune_git (snd e))\<rparr>"
    if "e \<in> set es" for e a
    using Dir.IH [OF that Basic_BNFs.snds.intros] .
  show ?case
    unfolding walk.simps Let_def
    by (simp only: walk_fold [of es, OF IH] flip: files_sum dirs_sum) (simp add: add.assoc)
qed

text \<open>Pruning leaves no \<open>.git\<close> directory, and changes nothing where there is none.\<close>

lemma has_git_dir_is_dir: "has_git_dir t \<Longrightarrow> is_dir t"
  by (cases t) simp_all

lemma prune_git_no_git_dir: "\<not> has_git_dir (prune_git t)"
proof (induction t)
  case (Dir es)
  have "\<not> has_git_dir (prune_git (snd e))" if "e \<in> set es" for e
    using Dir.IH [OF that Basic_BNFs.snds.intros] .
  then show ?case
    by (auto simp: list_ex_iff)
qed simp_all

lemma prune_git_unchanged: "\<not> has_git_dir t \<Longrightarrow> prune_git t = t"
proof (induction t)
  case (Dir es)
  have n: "\<not> (is_dir (snd e) \<and> fst e = ''.git'')" and h: "\<not> has_git_dir (snd e)"
    if "e \<in> set es" for e
    using Dir.prems that by (auto simp: list_ex_iff dest: has_git_dir_is_dir)
  have "prune_git (snd e) = snd e" if "e \<in> set es" for e
    using Dir.IH [OF that Basic_BNFs.snds.intros] h [OF that] .
  then have "map (\<lambda>e. (fst e, prune_git (snd e))) es = es"
    by (simp add: map_idI)
  moreover have "filter (\<lambda>e. \<not> (is_dir (snd e) \<and> fst e = ''.git'')) es = es"
    using n by (simp add: filter_id_conv)
  ultimately show ?case by simp
qed simp_all

text \<open>
  C1. Whatever the tree at the root, the stats collector returns the number of files and
  the number of directories of the tree from which every \<open>.git\<close> directory has been
  removed with all it holds, at every depth: such a directory is not counted where it
  appears and nothing beneath it is.
\<close>

theorem collect_stats_excludes_git:
  "fs w root = Some t \<Longrightarrow>
   collect_stats w root =
     ([OsWalk root], Inr \<lparr>files = files_below (prune_git t), dirs = dirs_below (prune_git t)\<rparr>)"
  by (simp add: collect_stats_def walk_acc)

theorem collect_stats_excludes_git_witness:
  "fs example_world ''/repo'' = Some example_tree \<and>
   collect_stats example_world ''/repo'' = ([OsWalk ''/repo''], Inr \<lparr>files = 3, dirs = 2\<rparr>)"
  using collect_stats_excludes_git [of example_world "''/repo''" example_tree]
  by (simp add: example_world_def example_fs_def example_tree_def)

section \<open>The overview collector\<close>









section \<open>Evaluation on the example worlds\<close>

lemmas run_defs =
  format_summary_def format_summary_lines_def io_bind_def io_return_def
  collect_git_info_def run_git_def returned_def collect_file_overview_def collect_stats_def
  summary_lines_def strip_def isspace_def str_or_def str_nat.simps digit_def
  format_kb_def size_kb_tenths_def float_numerator_def round_half_even_def
  branch_query_def log_query_def status_query_def remote_query_def child_path_def

lemmas world_defs =
  example_world_def example_fs_def example_git_def example_tree_def
  failing_status_world_def clean_status_world_def fresh_world_def

section \<open>Sequencing of the collectors\<close>

lemma snd_io_bind:
  "snd (io_bind m f) = (case snd m of Inl e \<Rightarrow> Inl e | Inr x \<Rightarrow> snd (f x))"
  by (auto simp: io_bind_def split: prod.splits sum.splits)

lemma fst_io_bind:
  "fst (io_bind m f) = (case snd m of Inl e \<Rightarrow> fst m | Inr x \<Rightarrow> fst m @ fst (f x))"
  by (auto simp: io_bind_def split: prod.splits sum.splits)

lemma snd_io_return [simp]: "snd (io_return x) = Inr x"
  by (simp add: io_return_def)

lemma fst_io_return [simp]: "fst (io_return x) = []"
  by (simp add: io_return_def)

section \<open>The version-control collector\<close>









section \<open>The summary\<close>




lemma not_metadata_bullet: "\<not> metadata_line (''  - '' @ x)"
  by (simp add: metadata_line_def)















text \<open>
  C6, as the program has it. The summary text is a function of the root path together with
  the three collected values: two runs on the same root whose collectors return equal
  metadata, equal listings and equal stats produce the same text (or the same error), and
  every call made during \<open>format_summary\<close> is a call of one of the three collectors.
\<close>

theorem summary_of_root_and_inputs:
  assumes "snd (collect_git_info w root) = snd (collect_git_info w' root)"
    and "snd (collect_file_overview w root) = snd (collect_file_overview w' root)"
    and "snd (collect_stats w root) = snd (collect_stats w' root)"
  shows "snd (format_summary w root) = snd (format_summary w' root)
       \<and> prefix (fst (format_summary w root))
            (fst (collect_git_info w root) @ fst (collect_file_overview w root)
               @ fst (collect_stats w root))"
proof -
  have "snd (format_summary w root) = snd (format_summary w' root)"
    using assms
    by (simp add: format_summary_def format_summary_lines_def snd_io_bind split: sum.splits)
  moreover have "prefix (fst (format_summary w root))
            (fst (collect_git_info w root) @ fst (collect_file_overview w root)
               @ fst (collect_stats w root))"
    by (simp add: format_summary_def format_summary_lines_def fst_io_bind snd_io_bind
        split: sum.splits)
  ultimately show ?thesis by simp
qed

theorem summary_of_root_and_inputs_witness:
  "snd (collect_git_info example_world ''/tmp/one'') = snd (collect_git_info clean_status_world ''/tmp/one'')
   \<and> snd (collect_file_overview example_world ''/tmp/one'')
       = snd (collect_file_overview clean_status_world ''/tmp/one'')
   \<and> snd (collect_stats example_world ''/tmp/one'') = snd (collect_stats clean_status_world ''/tmp/one'')
   \<and> git example_world \<noteq> git clean_status_world
   \<and> snd (format_summary example_world ''/tmp/one'') = snd (format_summary clean_status_world ''/tmp/one'')"
proof -
  have h1: "snd (collect_git_info example_world ''/tmp/one'')
              = snd (collect_git_info clean_status_world ''/tmp/one'')"
    by (simp add: run_defs world_defs)
  have h2: "snd (collect_file_overview example_world ''/tmp/one'')
       = snd (collect_file_overview clean_status_world ''/tmp/one'')"
    by (simp add: run_defs world_defs)
  have h3: "snd (collect_stats example_world ''/tmp/one'')
              = snd (collect_stats clean_status_world ''/tmp/one'')"
    by (simp add: run_defs world_defs)
  have "git example_world ''/tmp/one'' status_query \<noteq> git clean_status_world ''/tmp/one'' status_query"
    by (simp add: world_defs)
  then have d: "git example_world \<noteq> git clean_status_world"
    by metis
  show ?thesis
    using summary_of_root_and_inputs [OF h1 h2 h3] h1 h2 h3 d by simp
qed

text \<open>
  C6 as stated makes the text a function of the three collected values alone. The two empty
  directories \<open>/tmp/one\<close> and \<open>/tmp/two\<close>, neither in a repository, give equal
  metadata, listings and stats, and different summaries: the header line shows the path.
\<close>

theorem three_inputs_counterexample:
  "snd (collect_git_info example_world ''/tmp/one'') = snd (collect_git_info example_world ''/tmp/two'')
   \<and> snd (collect_file_overview example_world ''/tmp/one'')
       = snd (collect_file_overview example_world ''/tmp/two'')
   \<and> snd (collect_stats example_world ''/tmp/one'') = snd (collect_stats example_world ''/tmp/two'')
   \<and> snd (format_summary example_world ''/tmp/one'') \<noteq> snd (format_summary example_world ''/tmp/two'')"
  by (simp add: run_defs world_defs)

section \<open>The entry point\<close>






end
